theory Spec2Isabelle
  imports Main
begin

section \<open>JavaScript values and settled promises\<close>

text \<open>
  A value thrown or rejected in the program is typed \<^verbatim>\<open>unknown\<close>: it can be any
  JavaScript value. Objects are association lists from property names to values; the list
  holds every property the \<^verbatim>\<open>in\<close> operator and a property read can see (own and
  inherited alike), the first entry of a name winning.
\<close>

datatype jsvalue =
    JUndefined
  | JNull
  | JBool bool
  | JNum int
  | JStr string
  | JObj "(string \<times> jsvalue) list"

text \<open>The operator \<^verbatim>\<open>typeof\<close>; \<^verbatim>\<open>typeof null\<close> is \<^verbatim>\<open>'object'\<close>.\<close>

fun typeof :: "jsvalue \<Rightarrow> string" where
  "typeof JUndefined = ''undefined''"
| "typeof JNull = ''object''"
| "typeof (JBool b) = ''boolean''"
| "typeof (JNum n) = ''number''"
| "typeof (JStr s) = ''string''"
| "typeof (JObj ps) = ''object''"

text \<open>\<^verbatim>\<open>k in v\<close>, used by the program only behind the guard that \<open>v\<close> is a non-null object.\<close>

fun has_property :: "string \<Rightarrow> jsvalue \<Rightarrow> bool" where
  "has_property k (JObj ps) = (map_of ps k \<noteq> None)"
| "has_property k v = False"

text \<open>The property read \<^verbatim>\<open>v.k\<close>; a missing property reads as \<^verbatim>\<open>undefined\<close>.\<close>

fun get_property :: "jsvalue \<Rightarrow> string \<Rightarrow> jsvalue" where
  "get_property (JObj ps) k = (case map_of ps k of Some v \<Rightarrow> v | None \<Rightarrow> JUndefined)"
| "get_property v k = JUndefined"

text \<open>
  An awaited call either resolves with a value or rejects with an error value; the
  \<^verbatim>\<open>catch\<close> clause of the caller receives the latter.
\<close>

datatype 'a settled = Resolved 'a | Rejected jsvalue

text \<open>
  \<^verbatim>\<open>String.prototype.trim\<close> on strings of one-byte characters: the white space and
  line terminators below 256 are tab, line feed, vertical tab, form feed, carriage return,
  space and the no-break space.
\<close>

definition is_whitespace :: "char \<Rightarrow> bool" where
  "is_whitespace c = (of_char c \<in> {9, 10, 11, 12, 13, 32, 160 :: nat})"

definition trim :: "string \<Rightarrow> string" where
  "trim s = rev (dropWhile is_whitespace (rev (dropWhile is_whitespace s)))"

section \<open>View state of the two pages\<close>

text \<open>\<^verbatim>\<open>type SignupStep = 'signup' | 'verification'\<close>\<close>

datatype SignupStep = Signup | Verification

text \<open>
  \<^verbatim>\<open>type ErrorState\<close>: five optional messages. The fields carry the suffix
  \<open>_err\<close> because the draft's state variables bear the same names.
\<close>

record ErrorState =
  name_err :: "string option"
  email_err :: "string option"
  password_err :: "string option"
  confirmPassword_err :: "string option"
  code_err :: "string option"

definition no_errors :: ErrorState where
  "no_errors = \<lparr>name_err = None, email_err = None, password_err = None,
                 confirmPassword_err = None, code_err = None\<rparr>"

text \<open>\<^verbatim>\<open>Object.keys\<close> of an \<open>ErrorState\<close>: the names of the fields that were assigned.\<close>

definition Object_keys :: "ErrorState \<Rightarrow> string list" where
  "Object_keys e =
     (case name_err e of Some m \<Rightarrow> [''name''] | None \<Rightarrow> []) @
     (case email_err e of Some m \<Rightarrow> [''email''] | None \<Rightarrow> []) @
     (case password_err e of Some m \<Rightarrow> [''password''] | None \<Rightarrow> []) @
     (case confirmPassword_err e of Some m \<Rightarrow> [''confirmPassword''] | None \<Rightarrow> []) @
     (case code_err e of Some m \<Rightarrow> [''code''] | None \<Rightarrow> [])"

datatype ResendType = Success | Error

record ResendStatus =
  message :: string
  type :: ResendType

text \<open>The \<^verbatim>\<open>useState\<close> variables of the component \<^verbatim>\<open>Signup\<close>.\<close>

record SignupState =
  step :: SignupStep
  name :: string
  email :: string
  password :: string
  confirmPassword :: string
  verificationCode :: string
  errors :: ErrorState
  isLoading :: bool
  resendStatus :: "ResendStatus option"

text \<open>The state a freshly mounted \<^verbatim>\<open>Signup\<close> component starts in.\<close>

definition initialSignupState :: SignupState where
  "initialSignupState =
     \<lparr>step = Signup, name = [], email = [], password = [], confirmPassword = [],
      verificationCode = [], errors = no_errors, isLoading = False, resendStatus = None\<rparr>"

text \<open>\<^verbatim>\<open>getRecommendations\<close> resolves with an object \<^verbatim>\<open>{ recommendations: string }\<close>.\<close>

record RecommendationResult =
  recommendations :: string

text \<open>
  The \<^verbatim>\<open>useState\<close> variables of the component \<^verbatim>\<open>Recommendations\<close>; its loading
  flag is \<open>isLoadingR\<close> here, the name \<open>isLoading\<close> being taken by the signup page.
\<close>

record RecommendationsState =
  query :: string
  recommendationText :: string
  isLoadingR :: bool

section \<open>Effects\<close>

text \<open>
  A handler is modelled by the sequence of effects it performs, in program order: calls of
  the state setters, calls of the awaited network operations (with their arguments) and
  calls of the other imported functions. The state after the handler is the state before
  it with the setter calls applied in order.
\<close>

datatype event =
    PreventDefault
  | SetStep SignupStep
  | SetErrors ErrorState
  | SetIsLoading bool
  | SetResendStatus "ResendStatus option"
  | SetRecommendationText string
  | CallSignup string string string
  | CallVerifyCode string string
  | CallResendCode string
  | CallGetRecommendations string
  | HandleApiError jsvalue
  | Navigate string
  | Alert string

text \<open>
  Modelled from the spec: the shared error handler \<^verbatim>\<open>handleApiError\<close> of
  \<^verbatim>\<open>@/utils/errorHandling\<close> is not among the sources. It "consumes an arbitrary
  thrown/rejected value and performs a user-visible notification": a call is the event
  \<open>HandleApiError err\<close>, it changes no state of the page and it returns. Likewise
  \<^verbatim>\<open>navigate\<close>, \<^verbatim>\<open>alert\<close> and \<^verbatim>\<open>e.preventDefault\<close> are events that return.
\<close>

fun is_network_call :: "event \<Rightarrow> bool" where
  "is_network_call (CallSignup e p n) = True"
| "is_network_call (CallVerifyCode e c) = True"
| "is_network_call (CallResendCode e) = True"
| "is_network_call (CallGetRecommendations q) = True"
| "is_network_call ev = False"

fun is_signup_call :: "event \<Rightarrow> bool" where
  "is_signup_call (CallSignup e p n) = True"
| "is_signup_call ev = False"

fun is_error_report :: "event \<Rightarrow> bool" where
  "is_error_report (HandleApiError err) = True"
| "is_error_report ev = False"

fun is_navigation :: "event \<Rightarrow> bool" where
  "is_navigation (Navigate path) = True"
| "is_navigation ev = False"

fun is_resend_status_set :: "event \<Rightarrow> bool" where
  "is_resend_status_set (SetResendStatus r) = True"
| "is_resend_status_set ev = False"

text \<open>The effect of one event on the state of the signup page.\<close>

fun signup_apply :: "event \<Rightarrow> SignupState \<Rightarrow> SignupState" where
  "signup_apply (SetStep st) s = s\<lparr>step := st\<rparr>"
| "signup_apply (SetErrors e) s = s\<lparr>errors := e\<rparr>"
| "signup_apply (SetIsLoading b) s = s\<lparr>isLoading := b\<rparr>"
| "signup_apply (SetResendStatus r) s = s\<lparr>resendStatus := r\<rparr>"
| "signup_apply ev s = s"

definition signup_run :: "SignupState \<Rightarrow> event list \<Rightarrow> SignupState" where
  "signup_run s evs = fold signup_apply evs s"

text \<open>The effect of one event on the state of the recommendations page.\<close>

fun rec_apply :: "event \<Rightarrow> RecommendationsState \<Rightarrow> RecommendationsState" where
  "rec_apply (SetIsLoading b) s = s\<lparr>isLoadingR := b\<rparr>"
| "rec_apply (SetRecommendationText t) s = s\<lparr>recommendationText := t\<rparr>"
| "rec_apply ev s = s"

definition rec_run :: "RecommendationsState \<Rightarrow> event list \<Rightarrow> RecommendationsState" where
  "rec_run s evs = fold rec_apply evs s"

text \<open>
  \<open>holds_at sel ap P s evs\<close>: replaying \<open>evs\<close> from \<open>s\<close>, the state in which each
  event selected by \<open>sel\<close> is performed satisfies \<open>P\<close>.
\<close>

fun holds_at :: "(event \<Rightarrow> bool) \<Rightarrow> (event \<Rightarrow> 'st \<Rightarrow> 'st) \<Rightarrow> ('st \<Rightarrow> bool) \<Rightarrow> 'st \<Rightarrow> event list \<Rightarrow> bool" where
  "holds_at sel ap P s [] = True"
| "holds_at sel ap P s (ev # evs) =
     (if sel ev then P s \<and> holds_at sel ap P (ap ev s) evs
      else holds_at sel ap P (ap ev s) evs)"

section \<open>Imported helpers\<close>

text \<open>
  The validation helpers of \<^verbatim>\<open>@/utils/validation\<close> and the operations returned by
  \<^verbatim>\<open>useAuth\<close> are imported by the page and are parameters of its model. An awaited
  operation is given by how it settles on its arguments.
\<close>

record Validation =
  validateRequired :: "string \<Rightarrow> bool"
  validateEmail :: "string \<Rightarrow> bool"
  validatePassword :: "string \<Rightarrow> bool"

record Auth =
  signup :: "string \<Rightarrow> string \<Rightarrow> string \<Rightarrow> unit settled"
  verifyCode :: "string \<Rightarrow> string \<Rightarrow> unit settled"
  resendCode :: "string \<Rightarrow> unit settled"

section \<open>The signup page\<close>

text \<open>The object \<^verbatim>\<open>newErrors\<close> that \<^verbatim>\<open>validate\<close> builds, assignment by assignment.\<close>

definition newErrors :: "Validation \<Rightarrow> SignupState \<Rightarrow> ErrorState" where
  "newErrors V s =
     (let e0 = no_errors;
          e1 = (if \<not> validateRequired V (name s)
                then e0\<lparr>name_err := Some ''Name is required''\<rparr> else e0);
          e2 = (if \<not> validateRequired V (email s)
                then e1\<lparr>email_err := Some ''Email is required''\<rparr>
                else if \<not> validateEmail V (email s)
                then e1\<lparr>email_err := Some ''Invalid email format''\<rparr> else e1);
          e3 = (if \<not> validateRequired V (password s)
                then e2\<lparr>password_err := Some ''Password is required''\<rparr>
                else if \<not> validatePassword V (password s)
                then e2\<lparr>password_err :=
                  Some ''Password must be at least 8 characters with uppercase, lowercase, and number''\<rparr>
                else e2);
          e4 = (if password s \<noteq> confirmPassword s
                then e3\<lparr>confirmPassword_err := Some ''Passwords do not match''\<rparr> else e3)
      in e4)"

text \<open>
  \<^verbatim>\<open>validate\<close> (Signup.tsx, lines 48 to 72): its one effect, \<^verbatim>\<open>setErrors(newErrors)\<close>,
  and the boolean it returns.
\<close>

definition validate :: "Validation \<Rightarrow> SignupState \<Rightarrow> event list \<times> bool" where
  "validate V s =
     ([SetErrors (newErrors V s)], length (Object_keys (newErrors V s)) = 0)"

text \<open>The test of the \<^verbatim>\<open>catch\<close> clause of \<^verbatim>\<open>handleSignupSubmit\<close>.\<close>

definition is_username_exists :: "jsvalue \<Rightarrow> bool" where
  "is_username_exists err =
     (typeof err = ''object'' \<and> err \<noteq> JNull \<and> has_property ''name'' err \<and>
      get_property err ''name'' = JStr ''UsernameExistsException'')"

text \<open>
  \<^verbatim>\<open>handleSignupSubmit\<close> (Signup.tsx, lines 78 to 113). The handler returns right after
  \<^verbatim>\<open>validate\<close> when it yields false. Otherwise the \<^verbatim>\<open>try\<close> block awaits
  \<^verbatim>\<open>signup\<close>; the \<^verbatim>\<open>catch\<close> clause tests the rejected value and, on the recovery
  path, awaits \<^verbatim>\<open>resendCode\<close> in a nested \<^verbatim>\<open>try\<close> whose \<^verbatim>\<open>catch\<close> is empty;
  the \<^verbatim>\<open>finally\<close> clause is the last effect on every path through the block.
\<close>

definition handleSignupSubmit :: "Validation \<Rightarrow> Auth \<Rightarrow> SignupState \<Rightarrow> event list" where
  "handleSignupSubmit V A s =
     PreventDefault #
     (case validate V s of (evs, ok) \<Rightarrow>
        evs @
        (if \<not> ok then []
         else
           [SetIsLoading True, SetResendStatus None] @
           CallSignup (email s) (password s) (name s) #
           (case signup A (email s) (password s) (name s) of
              Resolved u \<Rightarrow> [SetStep Verification]
            | Rejected err \<Rightarrow>
                if is_username_exists err then
                  [SetErrors (no_errors\<lparr>email_err :=
                     Some ''User already exists. Please verify your email.''\<rparr>),
                   SetStep Verification] @
                  CallResendCode (email s) #
                  (case resendCode A (email s) of
                     Resolved u \<Rightarrow>
                       [SetResendStatus (Some \<lparr>message =
                          ''A new verification code has been sent to your email.'',
                          type = Success\<rparr>)]
                   | Rejected e \<Rightarrow> [])
                else [HandleApiError err]) @
           [SetIsLoading False]))"

text \<open>
  \<^verbatim>\<open>handleVerificationSubmit\<close> (Signup.tsx, lines 119 to 138). The presence check
  \<^verbatim>\<open>!verificationCode\<close> is true of the empty string only.
\<close>

definition handleVerificationSubmit :: "Auth \<Rightarrow> SignupState \<Rightarrow> event list" where
  "handleVerificationSubmit A s =
     PreventDefault #
     (if verificationCode s = [] then
        [SetErrors (no_errors\<lparr>code_err := Some ''Verification code is required''\<rparr>)]
      else
        SetIsLoading True #
        CallVerifyCode (email s) (verificationCode s) #
        (case verifyCode A (email s) (verificationCode s) of
           Resolved u \<Rightarrow> [Navigate ''/login'']
         | Rejected err \<Rightarrow>
             [HandleApiError err,
              SetErrors (no_errors\<lparr>code_err := Some ''Invalid verification code''\<rparr>)]) @
        [SetIsLoading False])"

text \<open>\<^verbatim>\<open>handleResendCode\<close> (Signup.tsx, lines 144 to 159).\<close>

definition handleResendCode :: "Auth \<Rightarrow> SignupState \<Rightarrow> event list" where
  "handleResendCode A s =
     SetResendStatus None #
     CallResendCode (email s) #
     (case resendCode A (email s) of
        Resolved u \<Rightarrow>
          [SetResendStatus (Some \<lparr>message = ''New code sent successfully!'', type = Success\<rparr>)]
      | Rejected e \<Rightarrow>
          [SetResendStatus (Some \<lparr>message =
             ''Cannot send multiple emails in a short time. Please try again later.'',
             type = Error\<rparr>)])"

section \<open>The signup page as a state machine\<close>










section \<open>The recommendations page\<close>

text \<open>
  \<^verbatim>\<open>handleGetRecommendations\<close> (Recommendations.tsx, lines 22 to 39); the imported
  \<^verbatim>\<open>getRecommendations\<close> is a parameter, given by how it settles on the query.
\<close>

definition handleGetRecommendations ::
  "(string \<Rightarrow> RecommendationResult settled) \<Rightarrow> RecommendationsState \<Rightarrow> event list" where
  "handleGetRecommendations getRecommendations s =
     (if trim (query s) = [] then [Alert ''Please enter a query'']
      else
        [SetIsLoading True, SetRecommendationText []] @
        CallGetRecommendations (query s) #
        (case getRecommendations (query s) of
           Resolved result \<Rightarrow> [SetRecommendationText (recommendations result)]
         | Rejected error \<Rightarrow> [HandleApiError error]) @
        [SetIsLoading False])"

section \<open>Validation helpers as the specification describes them\<close>

text \<open>
  Modelled from the spec: \<^verbatim>\<open>validateRequired\<close>, \<^verbatim>\<open>validateEmail\<close> and
  \<^verbatim>\<open>validatePassword\<close> of \<^verbatim>\<open>@/utils/validation\<close> are not among the sources. The
  specification asks of a required field that it is "non-empty after trimming", of a
  password "a minimum-length-8 policy with at least one uppercase letter, one lowercase
  letter, and one digit", and of an email that it "match a standard email syntax check",
  taken here as the shape local@domain.tld: a non-empty local part, one \<open>@\<close>, a dot
  inside the domain with a character on either side, and no white space. The theorems
  about the page hold for every choice of helpers; these are the instance they are
  evaluated at.
\<close>

definition is_upper :: "char \<Rightarrow> bool" where
  "is_upper c = (65 \<le> (of_char c :: nat) \<and> (of_char c :: nat) \<le> 90)"

definition is_lower :: "char \<Rightarrow> bool" where
  "is_lower c = (97 \<le> (of_char c :: nat) \<and> (of_char c :: nat) \<le> 122)"

definition is_digit :: "char \<Rightarrow> bool" where
  "is_digit c = (48 \<le> (of_char c :: nat) \<and> (of_char c :: nat) \<le> 57)"

definition validateRequired_spec :: "string \<Rightarrow> bool" where
  "validateRequired_spec v = (trim v \<noteq> [])"

definition validatePassword_spec :: "string \<Rightarrow> bool" where
  "validatePassword_spec p =
     (8 \<le> length p \<and> list_ex is_upper p \<and> list_ex is_lower p \<and> list_ex is_digit p)"

definition validateEmail_spec :: "string \<Rightarrow> bool" where
  "validateEmail_spec e =
     (let local = takeWhile (\<lambda>c. c \<noteq> CHR ''@'') e;
          rest = dropWhile (\<lambda>c. c \<noteq> CHR ''@'') e;
          domain = tl rest
      in local \<noteq> [] \<and> rest \<noteq> [] \<and> \<not> list_ex (\<lambda>c. c = CHR ''@'') domain \<and>
         list_ex (\<lambda>c. c = CHR ''.'') (butlast (tl domain)) \<and> \<not> list_ex is_whitespace e)"

definition specValidation :: Validation where
  "specValidation =
     \<lparr>validateRequired = validateRequired_spec, validateEmail = validateEmail_spec,
      validatePassword = validatePassword_spec\<rparr>"

section \<open>Concrete inputs\<close>

text \<open>A provider error as the identity service reports an already registered address.\<close>

definition usernameExistsError :: jsvalue where
  "usernameExistsError =
     JObj [(''name'', JStr ''UsernameExistsException''), (''message'', JStr ''User already exists'')]"

definition limitExceededError :: jsvalue where
  "limitExceededError = JObj [(''name'', JStr ''LimitExceededException'')]"

definition networkError :: jsvalue where
  "networkError = JObj [(''name'', JStr ''NetworkError''), (''message'', JStr ''Network error'')]"

text \<open>A provider on which every operation resolves.\<close>

definition authAllResolve :: Auth where
  "authAllResolve =
     \<lparr>signup = (\<lambda>e p n. Resolved ()), verifyCode = (\<lambda>e c. Resolved ()),
      resendCode = (\<lambda>e. Resolved ())\<rparr>"

text \<open>A provider that knows the address already and has a code to resend.\<close>

definition authExistsResendResolves :: Auth where
  "authExistsResendResolves =
     \<lparr>signup = (\<lambda>e p n. Rejected usernameExistsError), verifyCode = (\<lambda>e c. Resolved ()),
      resendCode = (\<lambda>e. Resolved ())\<rparr>"

text \<open>A provider that knows the address already and limits the rate of resends.\<close>

definition authExistsResendRejects :: Auth where
  "authExistsResendRejects =
     \<lparr>signup = (\<lambda>e p n. Rejected usernameExistsError),
      verifyCode = (\<lambda>e c. Rejected (JStr ''CodeMismatchException'')),
      resendCode = (\<lambda>e. Rejected limitExceededError)\<rparr>"

text \<open>A provider that cannot be reached.\<close>

definition authUnreachable :: Auth where
  "authUnreachable =
     \<lparr>signup = (\<lambda>e p n. Rejected networkError), verifyCode = (\<lambda>e c. Rejected networkError),
      resendCode = (\<lambda>e. Rejected networkError)\<rparr>"

definition validDraft :: SignupState where
  "validDraft =
     initialSignupState\<lparr>name := ''Ada'', email := ''a@b.com'', password := ''Abc12345'',
       confirmPassword := ''Abc12345''\<rparr>"

text \<open>The draft of the specification's example: only the name is missing.\<close>

definition exampleDraft :: SignupState where
  "exampleDraft =
     initialSignupState\<lparr>name := [], email := ''a@b.com'', password := ''Abc12345'',
       confirmPassword := ''Abc12345''\<rparr>"

text \<open>A draft with a sound password and a confirmation that differs in the last digit.\<close>

definition mismatchDraft :: SignupState where
  "mismatchDraft =
     initialSignupState\<lparr>name := ''Ada'', email := ''a@b.com'', password := ''Abc12345'',
       confirmPassword := ''Abc12346''\<rparr>"

text \<open>A draft with no password at all and a confirmation typed in.\<close>

definition confirmationOnlyDraft :: SignupState where
  "confirmationOnlyDraft =
     initialSignupState\<lparr>name := ''Ada'', email := ''a@b.com'', confirmPassword := ''Abc12345''\<rparr>"



text \<open>The verification step with a code typed in.\<close>

definition verificationState :: "string \<Rightarrow> SignupState" where
  "verificationState c = validDraft\<lparr>step := Verification, verificationCode := c\<rparr>"

text \<open>The recommendations page showing the result of an earlier request.\<close>

definition shownResult :: RecommendationsState where
  "shownResult =
     \<lparr>query = ''space opera'', recommendationText = ''Dune by Frank Herbert'',
      isLoadingR = False\<rparr>"

definition rejectingApi :: "string \<Rightarrow> RecommendationResult settled" where
  "rejectingApi q = Rejected networkError"

definition resolvingApi :: "string \<Rightarrow> RecommendationResult settled" where
  "resolvingApi q = Resolved \<lparr>recommendations = ''Hyperion by Dan Simmons''\<rparr>"

section \<open>Facts about the handlers\<close>

lemma validate_passes_iff:
  "snd (validate V s) \<longleftrightarrow>
     validateRequired V (name s) \<and>
     validateRequired V (email s) \<and> validateEmail V (email s) \<and>
     validateRequired V (password s) \<and> validatePassword V (password s) \<and>
     password s = confirmPassword s"
  by (simp add: validate_def newErrors_def Object_keys_def no_errors_def Let_def)

lemma fst_validate: "fst (validate V s) = [SetErrors (newErrors V s)]"
  by (simp add: validate_def)

lemma spec_verdicts:
  "\<not> validateRequired specValidation []"
  "validateRequired specValidation ''Ada''"
  "validateRequired specValidation ''a@b.com''"
  "validateEmail specValidation ''a@b.com''"
  "validateRequired specValidation ''Abc12345''"
  "validatePassword specValidation ''Abc12345''"
  by (simp_all add: specValidation_def validateRequired_spec_def validateEmail_spec_def
      validatePassword_spec_def trim_def is_whitespace_def is_upper_def is_lower_def is_digit_def)

lemma validDraft_passes: "snd (validate specValidation validDraft)"
  by (simp add: validate_passes_iff validDraft_def initialSignupState_def spec_verdicts)

lemma handleSignupSubmit_invalid:
  "\<not> snd (validate V s) \<Longrightarrow> handleSignupSubmit V A s = [PreventDefault, SetErrors (newErrors V s)]"
  by (simp add: handleSignupSubmit_def validate_def)

lemma handleSignupSubmit_valid:
  "snd (validate V s) \<Longrightarrow> handleSignupSubmit V A s =
     [PreventDefault, SetErrors (newErrors V s), SetIsLoading True, SetResendStatus None,
      CallSignup (email s) (password s) (name s)] @
     (case signup A (email s) (password s) (name s) of
        Resolved u \<Rightarrow> [SetStep Verification]
      | Rejected err \<Rightarrow>
          if is_username_exists err then
            [SetErrors (no_errors\<lparr>email_err := Some ''User already exists. Please verify your email.''\<rparr>),
             SetStep Verification, CallResendCode (email s)] @
            (case resendCode A (email s) of
               Resolved u \<Rightarrow>
                 [SetResendStatus (Some \<lparr>message = ''A new verification code has been sent to your email.'',
                    type = Success\<rparr>)]
             | Rejected e \<Rightarrow> [])
          else [HandleApiError err]) @
     [SetIsLoading False]"
  by (simp add: handleSignupSubmit_def validate_def split: settled.splits)

lemma handleVerificationSubmit_rejected:
  "verificationCode s \<noteq> [] \<Longrightarrow> verifyCode A (email s) (verificationCode s) = Rejected err \<Longrightarrow>
   handleVerificationSubmit A s =
     [PreventDefault, SetIsLoading True, CallVerifyCode (email s) (verificationCode s),
      HandleApiError err,
      SetErrors (no_errors\<lparr>code_err := Some ''Invalid verification code''\<rparr>),
      SetIsLoading False]"
  by (simp add: handleVerificationSubmit_def)

text \<open>
  What \<open>holds_at\<close> computes: however the sequence is cut at a selected event, the state
  reached by the events before the cut satisfies the predicate.
\<close>

lemma holds_at_split:
  "holds_at sel ap P s evs \<longleftrightarrow>
     (\<forall>pre ev post. evs = pre @ ev # post \<and> sel ev \<longrightarrow> P (fold ap pre s))"
proof (induction evs arbitrary: s)
  case Nil
  then show ?case by simp
next
  case (Cons a evs)
  have tail: "holds_at sel ap P (ap a s) evs \<longleftrightarrow>
     (\<forall>pre ev post. evs = pre @ ev # post \<and> sel ev \<longrightarrow> P (fold ap (a # pre) s))"
    by (simp add: Cons.IH)
  have split: "(\<forall>pre ev post. a # evs = pre @ ev # post \<and> sel ev \<longrightarrow> P (fold ap pre s)) \<longleftrightarrow>
     ((sel a \<longrightarrow> P s) \<and>
      (\<forall>pre ev post. evs = pre @ ev # post \<and> sel ev \<longrightarrow> P (fold ap (a # pre) s)))"
    (is "?L \<longleftrightarrow> ?R")
  proof
    assume L: ?L
    have "sel a \<longrightarrow> P s" using L [rule_format, of "[]" a evs] by simp
    moreover have "\<forall>pre ev post. evs = pre @ ev # post \<and> sel ev \<longrightarrow> P (fold ap (a # pre) s)"
    proof (intro allI impI)
      fix pre ev post assume "evs = pre @ ev # post \<and> sel ev"
      then show "P (fold ap (a # pre) s)" using L [rule_format, of "a # pre" ev post] by simp
    qed
    ultimately show ?R by blast
  next
    assume R: ?R
    show ?L
    proof (intro allI impI)
      fix pre ev post assume h: "a # evs = pre @ ev # post \<and> sel ev"
      show "P (fold ap pre s)"
      proof (cases pre)
        case Nil
        with h R show ?thesis by simp
      next
        case (Cons b pre')
        with h have "b = a" "evs = pre' @ ev # post" by simp_all
        with R h Cons show ?thesis by blast
      qed
    qed
  qed
  show ?case using tail split by auto
qed

section \<open>Manual resend\<close>

text \<open>
  Claim C7. A resend that the user triggers always ends with a ResendStatus: the success
  message when \<^verbatim>\<open>resendCode\<close> resolves, the rate-limit message of kind error when it
  rejects. The handler issues the one call and the status is never left empty.
\<close>

theorem manual_resend_always_reports:
  "(resendCode A (email s) = Resolved u \<longrightarrow>
      resendStatus (signup_run s (handleResendCode A s)) =
        Some \<lparr>message = ''New code sent successfully!'', type = Success\<rparr>) \<and>
   (resendCode A (email s) = Rejected e \<longrightarrow>
      resendStatus (signup_run s (handleResendCode A s)) =
        Some \<lparr>message = ''Cannot send multiple emails in a short time. Please try again later.'',
              type = Error\<rparr>) \<and>
   resendStatus (signup_run s (handleResendCode A s)) \<noteq> None \<and>
   filter is_network_call (handleResendCode A s) = [CallResendCode (email s)]"
  by (cases "resendCode A (email s)") (simp_all add: handleResendCode_def signup_run_def)

theorem manual_resend_always_reports_witness:
  "resendCode authAllResolve (email (verificationState ''123456'')) = Resolved () \<and>
   resendStatus (signup_run (verificationState ''123456'')
       (handleResendCode authAllResolve (verificationState ''123456''))) =
     Some \<lparr>message = ''New code sent successfully!'', type = Success\<rparr> \<and>
   resendCode authUnreachable (email (verificationState ''123456'')) = Rejected networkError \<and>
   resendStatus (signup_run (verificationState ''123456'')
       (handleResendCode authUnreachable (verificationState ''123456''))) =
     Some \<lparr>message = ''Cannot send multiple emails in a short time. Please try again later.'',
           type = Error\<rparr>"
  using manual_resend_always_reports [of authAllResolve "verificationState ''123456''" "()" networkError]
    manual_resend_always_reports [of authUnreachable "verificationState ''123456''" "()" networkError]
  by (simp add: authAllResolve_def authUnreachable_def)

section \<open>Loading flags\<close>

text \<open>
  Claim C8. In each of the three guarded operations (signup submit past validation,
  verification submit past the presence check, recommendation fetch past the query check)
  the loading flag is true in the state in which every network call is issued, the handler
  issues its call, the only \<^verbatim>\<open>setIsLoading(false)\<close> is the handler's last effect, and the
  flag is false when the handler has completed, however the calls settle.
\<close>

theorem loading_flag_brackets_calls:
  "(snd (validate V s) \<longrightarrow>
      holds_at is_network_call signup_apply isLoading s (handleSignupSubmit V A s) \<and>
      CallSignup (email s) (password s) (name s) \<in> set (handleSignupSubmit V A s) \<and>
      last (handleSignupSubmit V A s) = SetIsLoading False \<and>
      SetIsLoading False \<notin> set (butlast (handleSignupSubmit V A s)) \<and>
      \<not> isLoading (signup_run s (handleSignupSubmit V A s))) \<and>
   (verificationCode t \<noteq> [] \<longrightarrow>
      holds_at is_network_call signup_apply isLoading t (handleVerificationSubmit A t) \<and>
      CallVerifyCode (email t) (verificationCode t) \<in> set (handleVerificationSubmit A t) \<and>
      last (handleVerificationSubmit A t) = SetIsLoading False \<and>
      SetIsLoading False \<notin> set (butlast (handleVerificationSubmit A t)) \<and>
      \<not> isLoading (signup_run t (handleVerificationSubmit A t))) \<and>
   (trim (query r) \<noteq> [] \<longrightarrow>
      holds_at is_network_call rec_apply isLoadingR r (handleGetRecommendations g r) \<and>
      CallGetRecommendations (query r) \<in> set (handleGetRecommendations g r) \<and>
      last (handleGetRecommendations g r) = SetIsLoading False \<and>
      SetIsLoading False \<notin> set (butlast (handleGetRecommendations g r)) \<and>
      \<not> isLoadingR (rec_run r (handleGetRecommendations g r)))"
proof (intro conjI impI)
  assume ok: "snd (validate V s)"
  note tr = handleSignupSubmit_valid [OF ok, of A]
  show "holds_at is_network_call signup_apply isLoading s (handleSignupSubmit V A s)"
    unfolding tr by (simp split: settled.splits)
  show "CallSignup (email s) (password s) (name s) \<in> set (handleSignupSubmit V A s)"
    unfolding tr by simp
  show "last (handleSignupSubmit V A s) = SetIsLoading False"
    unfolding tr by simp
  show "SetIsLoading False \<notin> set (butlast (handleSignupSubmit V A s))"
    unfolding tr by (simp add: butlast_append split: settled.splits)
  show "\<not> isLoading (signup_run s (handleSignupSubmit V A s))"
    unfolding tr by (simp add: signup_run_def)
next
  assume code: "verificationCode t \<noteq> []"
  show "holds_at is_network_call signup_apply isLoading t (handleVerificationSubmit A t)"
    using code by (simp add: handleVerificationSubmit_def split: settled.splits)
  show "CallVerifyCode (email t) (verificationCode t) \<in> set (handleVerificationSubmit A t)"
    using code by (simp add: handleVerificationSubmit_def)
  show "last (handleVerificationSubmit A t) = SetIsLoading False"
    using code by (simp add: handleVerificationSubmit_def)
  show "SetIsLoading False \<notin> set (butlast (handleVerificationSubmit A t))"
    using code by (simp add: handleVerificationSubmit_def butlast_append split: settled.splits)
  show "\<not> isLoading (signup_run t (handleVerificationSubmit A t))"
    using code by (simp add: handleVerificationSubmit_def signup_run_def)
next
  assume q: "trim (query r) \<noteq> []"
  show "holds_at is_network_call rec_apply isLoadingR r (handleGetRecommendations g r)"
    using q by (simp add: handleGetRecommendations_def split: settled.splits)
  show "CallGetRecommendations (query r) \<in> set (handleGetRecommendations g r)"
    using q by (simp add: handleGetRecommendations_def)
  show "last (handleGetRecommendations g r) = SetIsLoading False"
    using q by (simp add: handleGetRecommendations_def)
  show "SetIsLoading False \<notin> set (butlast (handleGetRecommendations g r))"
    using q by (simp add: handleGetRecommendations_def butlast_append split: settled.splits)
  show "\<not> isLoadingR (rec_run r (handleGetRecommendations g r))"
    using q by (simp add: handleGetRecommendations_def rec_run_def)
qed


theorem loading_flag_brackets_calls_witness:
  "snd (validate specValidation validDraft) \<and>
   holds_at is_network_call signup_apply isLoading validDraft
     (handleSignupSubmit specValidation authExistsResendRejects validDraft) \<and>
   \<not> isLoading (signup_run validDraft
     (handleSignupSubmit specValidation authExistsResendRejects validDraft)) \<and>
   verificationCode (verificationState ''123456'') \<noteq> [] \<and>
   holds_at is_network_call signup_apply isLoading (verificationState ''123456'')
     (handleVerificationSubmit authExistsResendRejects (verificationState ''123456'')) \<and>
   \<not> isLoading (signup_run (verificationState ''123456'')
     (handleVerificationSubmit authExistsResendRejects (verificationState ''123456''))) \<and>
   trim (query shownResult) \<noteq> [] \<and>
   holds_at is_network_call rec_apply isLoadingR shownResult
     (handleGetRecommendations rejectingApi shownResult) \<and>
   \<not> isLoadingR (rec_run shownResult (handleGetRecommendations rejectingApi shownResult))"
proof -
  have q: "trim (query shownResult) \<noteq> []"
    by (simp add: shownResult_def trim_def is_whitespace_def)
  have c: "verificationCode (verificationState ''123456'') \<noteq> []"
    by (simp add: verificationState_def)
  show ?thesis
    using loading_flag_brackets_calls [of specValidation validDraft authExistsResendRejects
        "verificationState ''123456''" shownResult rejectingApi] validDraft_passes q c
    by blast
qed

section \<open>Failure of a recommendation request\<close>

text \<open>
  Claim C1, as the specification states it, fails: the handler empties the result text
  before it issues the call, so a result shown from an earlier request is gone after a
  failed attempt.
\<close>

theorem recommendations_failure_keeps_result_counterexample:
  "rejectingApi (query shownResult) = Rejected networkError \<and>
   CallGetRecommendations (query shownResult) \<in>
     set (handleGetRecommendations rejectingApi shownResult) \<and>
   recommendationText shownResult = ''Dune by Frank Herbert'' \<and>
   recommendationText (rec_run shownResult (handleGetRecommendations rejectingApi shownResult)) \<noteq>
     recommendationText shownResult"
  by (simp add: handleGetRecommendations_def rec_run_def shownResult_def rejectingApi_def
      trim_def is_whitespace_def)

text \<open>
  Claim C1, amended. When the call of \<^verbatim>\<open>getRecommendations\<close> rejects, the handler has
  emptied the result text before it issued the call (the text is empty in the state in which
  the call is made) and does not restore it: the result text is empty after the handler.
  The handler has issued exactly one network call (no retry) and has passed the rejected
  value once to the shared error handler, after the call.
\<close>

theorem recommendations_failure_clears_result:
  assumes "trim (query s) \<noteq> []"
    and "getRecommendations (query s) = Rejected err"
  shows "handleGetRecommendations getRecommendations s =
           [SetIsLoading True, SetRecommendationText [], CallGetRecommendations (query s),
            HandleApiError err, SetIsLoading False] \<and>
         holds_at is_network_call rec_apply (\<lambda>t. recommendationText t = []) s
           (handleGetRecommendations getRecommendations s) \<and>
         recommendationText (rec_run s (handleGetRecommendations getRecommendations s)) = [] \<and>
         filter is_network_call (handleGetRecommendations getRecommendations s) =
           [CallGetRecommendations (query s)] \<and>
         filter is_error_report (handleGetRecommendations getRecommendations s) =
           [HandleApiError err]"
  using assms by (simp add: handleGetRecommendations_def rec_run_def)

theorem recommendations_failure_clears_result_witness:
  "trim (query shownResult) \<noteq> [] \<and>
   rejectingApi (query shownResult) = Rejected networkError \<and>
   handleGetRecommendations rejectingApi shownResult =
     [SetIsLoading True, SetRecommendationText [], CallGetRecommendations ''space opera'',
      HandleApiError networkError, SetIsLoading False] \<and>
   recommendationText (rec_run shownResult (handleGetRecommendations rejectingApi shownResult)) = [] \<and>
   filter is_network_call (handleGetRecommendations rejectingApi shownResult) =
     [CallGetRecommendations ''space opera'']"
proof -
  have q: "trim (query shownResult) \<noteq> []"
    by (simp add: shownResult_def trim_def is_whitespace_def)
  have r: "rejectingApi (query shownResult) = Rejected networkError"
    by (simp add: rejectingApi_def)
  have e: "query shownResult = ''space opera''"
    by (simp add: shownResult_def)
  note h = recommendations_failure_clears_result [of shownResult rejectingApi networkError,
      OF q r, unfolded e]
  show ?thesis
    using h q r by blast
qed

section \<open>Signup of an address that is already registered\<close>

text \<open>
  Claim C2. When a locally valid draft is submitted and \<^verbatim>\<open>signup\<close> rejects with an
  object whose \<^verbatim>\<open>name\<close> is \<^verbatim>\<open>'UsernameExistsException'\<close>, the errors become exactly
  the email error "User already exists. Please verify your email.", the step becomes
  Verification and \<^verbatim>\<open>resendCode\<close> is called once for the draft's email, whether that
  resend resolves or rejects. The shared error handler is not called; and if the resend
  rejects, the only ResendStatus ever set is the clearing to null, which is also the
  final status.
\<close>

theorem username_exists_recovery:
  assumes "snd (validate V s)"
    and "signup A (email s) (password s) (name s) = Rejected err"
    and "is_username_exists err"
  shows "errors (signup_run s (handleSignupSubmit V A s)) =
           no_errors\<lparr>email_err := Some ''User already exists. Please verify your email.''\<rparr> \<and>
         step (signup_run s (handleSignupSubmit V A s)) = Verification \<and>
         filter is_network_call (handleSignupSubmit V A s) =
           [CallSignup (email s) (password s) (name s), CallResendCode (email s)] \<and>
         filter is_error_report (handleSignupSubmit V A s) = [] \<and>
         (\<forall>e. resendCode A (email s) = Rejected e \<longrightarrow>
            resendStatus (signup_run s (handleSignupSubmit V A s)) = None \<and>
            filter is_resend_status_set (handleSignupSubmit V A s) = [SetResendStatus None])"
proof -
  note tr = handleSignupSubmit_valid [OF assms(1), of A]
  show ?thesis
    unfolding tr using assms(2,3)
    by (simp add: signup_run_def split: settled.splits)
qed

theorem username_exists_recovery_witness:
  "snd (validate specValidation validDraft) \<and>
   signup authExistsResendRejects (email validDraft) (password validDraft) (name validDraft) =
     Rejected usernameExistsError \<and>
   is_username_exists usernameExistsError \<and>
   resendCode authExistsResendRejects (email validDraft) = Rejected limitExceededError \<and>
   step validDraft = Signup \<and>
   step (signup_run validDraft
     (handleSignupSubmit specValidation authExistsResendRejects validDraft)) = Verification \<and>
   email_err (errors (signup_run validDraft
     (handleSignupSubmit specValidation authExistsResendRejects validDraft))) =
     Some ''User already exists. Please verify your email.'' \<and>
   resendStatus (signup_run validDraft
     (handleSignupSubmit specValidation authExistsResendRejects validDraft)) = None \<and>
   step (signup_run validDraft
     (handleSignupSubmit specValidation authExistsResendResolves validDraft)) = Verification \<and>
   email_err (errors (signup_run validDraft
     (handleSignupSubmit specValidation authExistsResendResolves validDraft))) =
     Some ''User already exists. Please verify your email.''"
proof -
  have ex: "is_username_exists usernameExistsError"
    by (simp add: is_username_exists_def usernameExistsError_def)
  have s1: "signup authExistsResendRejects (email validDraft) (password validDraft) (name validDraft) =
     Rejected usernameExistsError"
    by (simp add: authExistsResendRejects_def)
  have s2: "signup authExistsResendResolves (email validDraft) (password validDraft) (name validDraft) =
     Rejected usernameExistsError"
    by (simp add: authExistsResendResolves_def)
  have r1: "resendCode authExistsResendRejects (email validDraft) = Rejected limitExceededError"
    by (simp add: authExistsResendRejects_def)
  have st: "step validDraft = Signup"
    by (simp add: validDraft_def initialSignupState_def)
  show ?thesis
    using username_exists_recovery [of specValidation validDraft authExistsResendRejects
        usernameExistsError]
      username_exists_recovery [of specValidation validDraft authExistsResendResolves
        usernameExistsError] ex s1 s2 r1 st validDraft_passes
    by simp
qed

section \<open>The invariant of the signup page\<close>
















section \<open>Clearing of the resend notification\<close>



section \<open>Local validation of the draft\<close>

text \<open>
  Claim C4. When a draft fails at least one of the four rules, the errors after the
  submission hold, for each of the four fields at once, the message of that field's rule if
  it fails and nothing if it passes, and no network call is issued. In particular, with
  helpers that reject the empty name and accept "a@b.com" and "Abc12345", the draft of
  the example yields exactly the error "Name is required" on the name and no call.
\<close>

theorem validation_reports_every_failing_field:
  "(\<not> (validateRequired V (name s) \<and>
        validateRequired V (email s) \<and> validateEmail V (email s) \<and>
        validateRequired V (password s) \<and> validatePassword V (password s) \<and>
        password s = confirmPassword s) \<longrightarrow>
      name_err (errors (signup_run s (handleSignupSubmit V A s))) =
        (if validateRequired V (name s) then None else Some ''Name is required'') \<and>
      email_err (errors (signup_run s (handleSignupSubmit V A s))) =
        (if \<not> validateRequired V (email s) then Some ''Email is required''
         else if \<not> validateEmail V (email s) then Some ''Invalid email format'' else None) \<and>
      password_err (errors (signup_run s (handleSignupSubmit V A s))) =
        (if \<not> validateRequired V (password s) then Some ''Password is required''
         else if \<not> validatePassword V (password s)
         then Some ''Password must be at least 8 characters with uppercase, lowercase, and number''
         else None) \<and>
      confirmPassword_err (errors (signup_run s (handleSignupSubmit V A s))) =
        (if password s \<noteq> confirmPassword s then Some ''Passwords do not match'' else None) \<and>
      code_err (errors (signup_run s (handleSignupSubmit V A s))) = None \<and>
      filter is_network_call (handleSignupSubmit V A s) = []) \<and>
   (\<not> validateRequired V [] \<and> validateRequired V ''a@b.com'' \<and> validateEmail V ''a@b.com'' \<and>
    validateRequired V ''Abc12345'' \<and> validatePassword V ''Abc12345'' \<and>
    name s = [] \<and> email s = ''a@b.com'' \<and> password s = ''Abc12345'' \<and>
    confirmPassword s = ''Abc12345'' \<longrightarrow>
      errors (signup_run s (handleSignupSubmit V A s)) =
        no_errors\<lparr>name_err := Some ''Name is required''\<rparr> \<and>
      filter is_network_call (handleSignupSubmit V A s) = [])"
proof (intro conjI impI)
  assume "\<not> (validateRequired V (name s) \<and>
        validateRequired V (email s) \<and> validateEmail V (email s) \<and>
        validateRequired V (password s) \<and> validatePassword V (password s) \<and>
        password s = confirmPassword s)"
  then have bad: "\<not> snd (validate V s)"
    using validate_passes_iff [of V s] by blast
  note tr = handleSignupSubmit_invalid [OF bad, of A]
  show "name_err (errors (signup_run s (handleSignupSubmit V A s))) =
        (if validateRequired V (name s) then None else Some ''Name is required'')"
    unfolding tr by (simp add: signup_run_def newErrors_def no_errors_def Let_def)
  show "email_err (errors (signup_run s (handleSignupSubmit V A s))) =
        (if \<not> validateRequired V (email s) then Some ''Email is required''
         else if \<not> validateEmail V (email s) then Some ''Invalid email format'' else None)"
    unfolding tr by (simp add: signup_run_def newErrors_def no_errors_def Let_def)
  show "password_err (errors (signup_run s (handleSignupSubmit V A s))) =
        (if \<not> validateRequired V (password s) then Some ''Password is required''
         else if \<not> validatePassword V (password s)
         then Some ''Password must be at least 8 characters with uppercase, lowercase, and number''
         else None)"
    unfolding tr by (simp add: signup_run_def newErrors_def no_errors_def Let_def)
  show "confirmPassword_err (errors (signup_run s (handleSignupSubmit V A s))) =
        (if password s \<noteq> confirmPassword s then Some ''Passwords do not match'' else None)"
    unfolding tr by (simp add: signup_run_def newErrors_def no_errors_def Let_def)
  show "code_err (errors (signup_run s (handleSignupSubmit V A s))) = None"
    unfolding tr by (simp add: signup_run_def newErrors_def no_errors_def Let_def)
  show "filter is_network_call (handleSignupSubmit V A s) = []"
    unfolding tr by simp
next
  assume ex: "\<not> validateRequired V [] \<and> validateRequired V ''a@b.com'' \<and>
    validateEmail V ''a@b.com'' \<and> validateRequired V ''Abc12345'' \<and>
    validatePassword V ''Abc12345'' \<and>
    name s = [] \<and> email s = ''a@b.com'' \<and> password s = ''Abc12345'' \<and>
    confirmPassword s = ''Abc12345''"
  then have bad: "\<not> snd (validate V s)"
    by (simp add: validate_passes_iff)
  note tr = handleSignupSubmit_invalid [OF bad, of A]
  show "errors (signup_run s (handleSignupSubmit V A s)) =
        no_errors\<lparr>name_err := Some ''Name is required''\<rparr>"
    unfolding tr using ex by (simp add: signup_run_def newErrors_def no_errors_def Let_def)
  show "filter is_network_call (handleSignupSubmit V A s) = []"
    unfolding tr by simp
qed

theorem validation_reports_every_failing_field_witness:
  "\<not> validateRequired specValidation (name exampleDraft) \<and>
   errors (signup_run exampleDraft (handleSignupSubmit specValidation authAllResolve exampleDraft)) =
     \<lparr>name_err = Some ''Name is required'', email_err = None, password_err = None,
      confirmPassword_err = None, code_err = None\<rparr> \<and>
   filter is_network_call (handleSignupSubmit specValidation authAllResolve exampleDraft) = []"
proof -
  have d: "name exampleDraft = [] \<and> email exampleDraft = ''a@b.com'' \<and>
      password exampleDraft = ''Abc12345'' \<and> confirmPassword exampleDraft = ''Abc12345''"
    by (simp add: exampleDraft_def)
  show ?thesis
    using validation_reports_every_failing_field [of specValidation exampleDraft authAllResolve]
      spec_verdicts d
    by (simp add: no_errors_def)
qed

text \<open>
  Claim C5. When the confirmation differs from the password, \<^verbatim>\<open>validate\<close> sets the
  error "Passwords do not match" on the confirmation, whatever the helpers say of the
  password (or of any other field), validation fails, and the error is in the page's errors
  after the submission.
\<close>

theorem mismatch_always_reported:
  assumes "confirmPassword s \<noteq> password s"
  shows "confirmPassword_err (newErrors V s) = Some ''Passwords do not match'' \<and>
         \<not> snd (validate V s) \<and>
         confirmPassword_err (errors (signup_run s (fst (validate V s)))) =
           Some ''Passwords do not match'' \<and>
         confirmPassword_err (errors (signup_run s (handleSignupSubmit V A s))) =
           Some ''Passwords do not match''"
proof -
  have ne: "password s \<noteq> confirmPassword s" using assms by auto
  have e: "confirmPassword_err (newErrors V s) = Some ''Passwords do not match''"
    using ne by (simp add: newErrors_def Let_def)
  have bad: "\<not> snd (validate V s)"
    using ne by (simp add: validate_passes_iff)
  show ?thesis
    using e bad by (simp add: handleSignupSubmit_invalid [OF bad] fst_validate signup_run_def)
qed

theorem mismatch_always_reported_witness:
  "confirmPassword mismatchDraft \<noteq> password mismatchDraft \<and>
   validatePassword specValidation (password mismatchDraft) \<and>
   confirmPassword_err (newErrors specValidation mismatchDraft) = Some ''Passwords do not match'' \<and>
   password_err (newErrors specValidation mismatchDraft) = None \<and>
   confirmPassword confirmationOnlyDraft \<noteq>
     password confirmationOnlyDraft \<and>
   password_err (newErrors specValidation confirmationOnlyDraft) =
     Some ''Password is required'' \<and>
   confirmPassword_err (newErrors specValidation confirmationOnlyDraft) =
     Some ''Passwords do not match''"
proof -
  have a: "confirmPassword mismatchDraft \<noteq> password mismatchDraft"
    by (simp add: mismatchDraft_def)
  have b: "confirmPassword confirmationOnlyDraft \<noteq>
     password confirmationOnlyDraft"
    by (simp add: confirmationOnlyDraft_def initialSignupState_def)
  have c: "password_err (newErrors specValidation mismatchDraft) = None"
    by (simp add: newErrors_def Let_def mismatchDraft_def initialSignupState_def spec_verdicts
        no_errors_def)
  have d: "password_err (newErrors specValidation confirmationOnlyDraft) =
     Some ''Password is required''"
    by (simp add: newErrors_def Let_def confirmationOnlyDraft_def initialSignupState_def
        spec_verdicts no_errors_def)
  have e: "validatePassword specValidation (password mismatchDraft)"
    by (simp add: mismatchDraft_def spec_verdicts)
  show ?thesis
    using mismatch_always_reported [of mismatchDraft specValidation authAllResolve]
      mismatch_always_reported [of confirmationOnlyDraft
        specValidation authAllResolve] a b c d e
    by simp
qed


section \<open>Rejected verification\<close>

text \<open>
  Claim C6. When a non-empty code is submitted and \<^verbatim>\<open>verifyCode\<close> rejects, the errors
  become exactly the code error "Invalid verification code", the step is what it was (from
  Verification it remains Verification), and the handler does not navigate.
\<close>

theorem rejected_code_stays_in_verification:
  assumes "verificationCode s \<noteq> []"
    and "verifyCode A (email s) (verificationCode s) = Rejected err"
  shows "errors (signup_run s (handleVerificationSubmit A s)) =
           no_errors\<lparr>code_err := Some ''Invalid verification code''\<rparr> \<and>
         step (signup_run s (handleVerificationSubmit A s)) = step s \<and>
         filter is_navigation (handleVerificationSubmit A s) = []"
  unfolding handleVerificationSubmit_rejected [OF assms]
  by (simp add: signup_run_def)

theorem rejected_code_stays_in_verification_witness:
  "verificationCode (verificationState ''000000'') \<noteq> [] \<and>
   verifyCode authExistsResendRejects (email (verificationState ''000000''))
     (verificationCode (verificationState ''000000'')) = Rejected (JStr ''CodeMismatchException'') \<and>
   step (verificationState ''000000'') = Verification \<and>
   step (signup_run (verificationState ''000000'')
     (handleVerificationSubmit authExistsResendRejects (verificationState ''000000''))) =
     Verification \<and>
   code_err (errors (signup_run (verificationState ''000000'')
     (handleVerificationSubmit authExistsResendRejects (verificationState ''000000'')))) =
     Some ''Invalid verification code''"
proof -
  have a: "verificationCode (verificationState ''000000'') \<noteq> []"
    by (simp add: verificationState_def)
  have b: "verifyCode authExistsResendRejects (email (verificationState ''000000''))
     (verificationCode (verificationState ''000000'')) = Rejected (JStr ''CodeMismatchException'')"
    by (simp add: authExistsResendRejects_def)
  have c: "step (verificationState ''000000'') = Verification"
    by (simp add: verificationState_def)
  show ?thesis
    using rejected_code_stays_in_verification [of "verificationState ''000000''"
        authExistsResendRejects "JStr ''CodeMismatchException''"] a b c
    by simp
qed

text \<open>
  Claim C9. When \<^verbatim>\<open>verifyCode\<close> rejects, whatever value it rejects with, the handler
  performs the same effects: it passes the value to the shared error handler, once, and
  then sets the code error "Invalid verification code". The rejected value is not
  inspected.
\<close>

theorem verification_failure_not_discriminated:
  assumes "verificationCode s \<noteq> []"
    and "verifyCode A (email s) (verificationCode s) = Rejected err"
  shows "handleVerificationSubmit A s =
           [PreventDefault, SetIsLoading True, CallVerifyCode (email s) (verificationCode s),
            HandleApiError err,
            SetErrors (no_errors\<lparr>code_err := Some ''Invalid verification code''\<rparr>),
            SetIsLoading False] \<and>
         filter is_error_report (handleVerificationSubmit A s) = [HandleApiError err] \<and>
         code_err (errors (signup_run s (handleVerificationSubmit A s))) =
           Some ''Invalid verification code''"
  unfolding handleVerificationSubmit_rejected [OF assms]
  by (simp add: signup_run_def)

theorem verification_failure_not_discriminated_witness:
  "verificationCode (verificationState ''123456'') \<noteq> [] \<and>
   verifyCode authUnreachable (email (verificationState ''123456''))
     (verificationCode (verificationState ''123456'')) = Rejected networkError \<and>
   filter is_error_report (handleVerificationSubmit authUnreachable (verificationState ''123456'')) =
     [HandleApiError networkError] \<and>
   code_err (errors (signup_run (verificationState ''123456'')
     (handleVerificationSubmit authUnreachable (verificationState ''123456'')))) =
     Some ''Invalid verification code''"
proof -
  have a: "verificationCode (verificationState ''123456'') \<noteq> []"
    by (simp add: verificationState_def)
  have b: "verifyCode authUnreachable (email (verificationState ''123456''))
     (verificationCode (verificationState ''123456'')) = Rejected networkError"
    by (simp add: authUnreachable_def)
  show ?thesis
    using verification_failure_not_discriminated [of "verificationState ''123456''"
        authUnreachable networkError] a b
    by blast
qed

text \<open>
  Claim C10. The presence check of the verification step compares the code with the empty
  string only: for every non-empty code, also one made of white space, the check passes (the
  error "Verification code is required" is not set) and the handler issues the call of
  \<^verbatim>\<open>verifyCode\<close> with the code as typed.
\<close>

theorem presence_check_does_not_trim:
  assumes "verificationCode s \<noteq> []"
  shows "filter is_network_call (handleVerificationSubmit A s) =
           [CallVerifyCode (email s) (verificationCode s)] \<and>
         SetErrors (no_errors\<lparr>code_err := Some ''Verification code is required''\<rparr>) \<notin>
           set (handleVerificationSubmit A s)"
  using assms
  by (simp add: handleVerificationSubmit_def no_errors_def split: settled.splits)

theorem presence_check_does_not_trim_witness:
  "verificationCode (verificationState ''   '') \<noteq> [] \<and>
   trim (verificationCode (verificationState ''   '')) = [] \<and>
   filter is_network_call (handleVerificationSubmit authAllResolve (verificationState ''   '')) =
     [CallVerifyCode ''a@b.com'' ''   '']"
proof -
  have a: "verificationCode (verificationState ''   '') \<noteq> []"
    by (simp add: verificationState_def)
  have b: "trim (verificationCode (verificationState ''   '')) = []"
    by (simp add: verificationState_def trim_def is_whitespace_def)
  have c: "email (verificationState ''   '') = ''a@b.com'' \<and>
      verificationCode (verificationState ''   '') = ''   ''"
    by (simp add: verificationState_def validDraft_def)
  show ?thesis
    using presence_check_does_not_trim [of "verificationState ''   ''" authAllResolve] a b c
    by simp
qed


end
